theory Spec2Isabelle
  imports Complex_Main "HOL-Library.Word" "HOL-Library.Stream"
begin

section \<open>Numbers\<close>

text \<open>
  Go's \<open>int32\<close> and \<open>int64\<close> are machine words read as two's complement (\<open>sint\<close>).

  A \<open>float64\<close> is one of: a finite number, plus or minus infinity, or NaN. Finite
  values are modelled by the rational they denote and arithmetic on them is exact:
  rounding to 53 bits and the sign of zero are not modelled. Division by zero and
  operations on infinities and NaN follow IEEE 754, and every comparison with NaN is
  false, as in Go. The thresholds of the configuration are parsed by
  \<open>strconv.ParseFloat\<close> without any range check, so they may be infinite or NaN.
\<close>

type_synonym int32 = "32 word"
type_synonym int64 = "64 word"

datatype float64 = Finite rat | PosInf | NegInf | NaN

definition float64_of_int32 :: "int32 \<Rightarrow> float64" where
  "float64_of_int32 i = Finite (of_int (sint i))"

definition float64_of_int64 :: "int64 \<Rightarrow> float64" where
  "float64_of_int64 i = Finite (of_int (sint i))"

fun fdiv :: "float64 \<Rightarrow> float64 \<Rightarrow> float64" where
  "fdiv NaN y = NaN"
| "fdiv x NaN = NaN"
| "fdiv (Finite a) (Finite b) =
     (if b = 0 then (if a = 0 then NaN else if 0 < a then PosInf else NegInf)
      else Finite (a / b))"
| "fdiv (Finite a) PosInf = Finite 0"
| "fdiv (Finite a) NegInf = Finite 0"
| "fdiv PosInf (Finite b) = (if 0 \<le> b then PosInf else NegInf)"
| "fdiv NegInf (Finite b) = (if 0 \<le> b then NegInf else PosInf)"
| "fdiv PosInf PosInf = NaN"
| "fdiv PosInf NegInf = NaN"
| "fdiv NegInf PosInf = NaN"
| "fdiv NegInf NegInf = NaN"

fun fmul :: "float64 \<Rightarrow> float64 \<Rightarrow> float64" where
  "fmul NaN y = NaN"
| "fmul x NaN = NaN"
| "fmul (Finite a) (Finite b) = Finite (a * b)"
| "fmul (Finite a) PosInf = (if a = 0 then NaN else if 0 < a then PosInf else NegInf)"
| "fmul (Finite a) NegInf = (if a = 0 then NaN else if 0 < a then NegInf else PosInf)"
| "fmul PosInf (Finite b) = (if b = 0 then NaN else if 0 < b then PosInf else NegInf)"
| "fmul NegInf (Finite b) = (if b = 0 then NaN else if 0 < b then NegInf else PosInf)"
| "fmul PosInf PosInf = PosInf"
| "fmul PosInf NegInf = NegInf"
| "fmul NegInf PosInf = NegInf"
| "fmul NegInf NegInf = PosInf"

text \<open>The comparisons \<open><\<close>, \<open>>\<close>, \<open>\<le>\<close> and \<open>\<ge>\<close> of Go on \<open>float64\<close>.\<close>

fun flt :: "float64 \<Rightarrow> float64 \<Rightarrow> bool" where
  "flt (Finite a) (Finite b) = (a < b)"
| "flt (Finite a) PosInf = True"
| "flt NegInf (Finite b) = True"
| "flt NegInf PosInf = True"
| "flt x y = False"

definition fgt :: "float64 \<Rightarrow> float64 \<Rightarrow> bool" where
  "fgt x y = flt y x"



section \<open>Package config\<close>

text \<open>
  The configuration struct. It is filled once at start-up from the environment and only
  read afterwards. \<open>ContainerName\<close> is also a field of \<open>ResourceMetrics\<close> below, so
  the field of the configuration is written \<open>Config.ContainerName\<close>.
\<close>

record Config =
  KubeconfigPath :: string
  InClusterConfig :: bool
  Namespace :: string
  DeploymentName :: string
  ContainerName :: string
  PodName :: string
  ResourceThresholdMemoryPercent :: float64
  ResourceThresholdCPUPercent :: float64
  MinimumPodsToKeepPercent :: float64
  HttpPort :: string

section \<open>Package metrics: the data\<close>

text \<open>
  The structs of \<open>pkg/metrics/metrics.go\<close>. The \<open>Name\<close> and \<open>Namespace\<close> fields of
  \<open>ContainerMetrics\<close>, \<open>PodMetrics\<close> and \<open>DeploymentMetrics\<close> are never read by the
  handlers and are left out. A Go pointer that may be nil is an \<open>option\<close>; the map
  \<open>Containers\<close> is a pointer-valued map that may itself be nil.
\<close>

record ContainerMetrics =
  CPUUsage :: int64
  MemUsage :: int64
  Ready :: bool

record ContainerLimits =
  CPULimit :: int64
  MemLimit :: int64

record PodMetrics =
  Containers :: "(string \<rightharpoonup> ContainerMetrics option) option"

record DeploymentMetrics =
  Replicas :: int32
  AvailableReplicas :: int32

record ResourceMetrics =
  DeploymentReplicas :: int32
  DeploymentAvailableReplicas :: int32
  ContainerName :: string
  ContainerCPULimit :: int64
  ContainerMemLimit :: int64
  ContainerReady :: bool
  ContainerCPUUsage :: int64
  ContainerMemUsage :: int64

section \<open>The ratio calculators\<close>

text \<open>
  \<open>calcPodsRatio\<close>, \<open>calcMemoryPercent\<close> and \<open>calcCPUPercent\<close> of the health handler.
  The receiver is not used by any of them.
\<close>

definition calcPodsRatio :: "ResourceMetrics \<Rightarrow> float64" where
  "calcPodsRatio metrics =
     (if sint (DeploymentReplicas metrics) \<le> 0 then Finite 0
      else fmul (fdiv (float64_of_int32 (DeploymentAvailableReplicas metrics))
                      (float64_of_int32 (DeploymentReplicas metrics))) (Finite 100))"

definition calcMemoryPercent :: "ResourceMetrics \<Rightarrow> float64" where
  "calcMemoryPercent metrics =
     (if sint (ContainerMemLimit metrics) \<le> 0 then Finite 0
      else fmul (fdiv (float64_of_int64 (ContainerMemUsage metrics))
                      (float64_of_int64 (ContainerMemLimit metrics))) (Finite 100))"

definition calcCPUPercent :: "ResourceMetrics \<Rightarrow> float64" where
  "calcCPUPercent metrics =
     (if sint (ContainerCPULimit metrics) \<le> 0 then Finite 0
      else fmul (fdiv (float64_of_int64 (ContainerCPUUsage metrics))
                      (float64_of_int64 (ContainerCPULimit metrics))) (Finite 100))"

section \<open>Package k8s: the client\<close>

text \<open>
  Go errors are values; only where an error comes from matters here, not its text.
\<close>

datatype error =
    ApiError
  | LimitsNotInitialised
  | CannotGetLimits error

text \<open>
  Of the client only the container limits cached at start-up are state of this program;
  the two clientsets talk to the cluster. \<open>GetContainerLimits\<close> returns the cached
  value and fails exactly when there is none.
\<close>

record Client =
  ContainerLimits :: "ContainerLimits option"

definition GetContainerLimits :: "Client \<Rightarrow> error + ContainerLimits" where
  "GetContainerLimits c =
     (case ContainerLimits c of
        None \<Rightarrow> Inl LimitsNotInitialised
      | Some limits \<Rightarrow> Inr limits)"

text \<open>
  What the cluster answers during one request: the results of \<open>GetDeploymentInfo\<close>,
  \<open>GetPodInfo\<close> and \<open>GetPodMetrics\<close>, each a Go pair of a pointer and an error
  (\<open>Inl\<close> when the error is not nil, otherwise the pointer, which may be nil). A call
  that runs into the five-second deadline of the request context answers with an error.
\<close>

record Cluster =
  GetDeploymentInfo :: "error + DeploymentMetrics option"
  GetPodInfo :: "error + PodMetrics option"
  GetPodMetrics :: "error + PodMetrics option"

section \<open>Package handlers: the health handler\<close>

text \<open>
  The handler holds the client, the metrics collector and the configuration. The
  collector is a clientset with the same configuration; what it returns is part of the
  cluster's answers.
\<close>

record HealthHandler =
  K8sClient :: Client
  Config :: Config

text \<open>
  The package-level variables of the handlers package. \<open>shouldRandomize\<close> is the sticky
  backoff flag: \<open>True\<close> is the unlocked state and \<open>False\<close> the locked one. The
  generator \<open>rng\<close> is the sequence of numbers that \<open>Float64\<close> has yet to return; each
  call returns the head and leaves the tail. The source puts no lock around these
  variables. The model runs the handlers one request at a time, each from the variables
  the previous one left; requests that overlap in time are outside it.
\<close>

record globals =
  resourceOverLoaded :: bool
  shouldRandomize :: bool
  rng :: "rat stream"

definition Float64 :: "rat stream \<Rightarrow> float64 \<times> rat stream" where
  "Float64 r = (Finite (shd r), stl r)"

text \<open>The status codes of \<open>net/http\<close> that the handlers write.\<close>

definition StatusOK :: nat where
  "StatusOK = 200"

definition StatusBadRequest :: nat where
  "StatusBadRequest = 400"

definition StatusServiceUnavailable :: nat where
  "StatusServiceUnavailable = 503"

text \<open>
  The JSON object of the health response, with the two nested objects flattened. The
  \<open>message\<close> entry, a sentence that repeats these numbers with two decimals, and the log
  lines are not modelled.
\<close>

record details =
  deployment_name :: string
  replicas :: int32
  available_replicas :: int32
  availability_percent :: float64
  container_name :: string
  ready :: bool
  memory_usage_mb :: int64
  memory_limit_mb :: int64
  memory_percent :: float64
  cpu_usage_millicores :: int64
  cpu_limit_millicores :: int64
  cpu_percent :: float64
  status :: string

datatype body =
    FailureText error
  | Details details
  | Snapshot ResourceMetrics

record response =
  statusCode :: nat
  body :: body

text \<open>
  \<open>collectResourceMetrics\<close>. The snapshot starts with every field but the container name
  at its zero value. Failing to get the deployment, the pod or the pod metrics is logged
  and leaves the fields as they are; failing to get the container limits is the only error
  returned.
\<close>

definition collectResourceMetrics :: "HealthHandler \<Rightarrow> Cluster \<Rightarrow> error + ResourceMetrics" where
  "collectResourceMetrics h cluster =
     (let m = \<lparr>DeploymentReplicas = 0, DeploymentAvailableReplicas = 0,
                ContainerName = Config.ContainerName (Config h),
                ContainerCPULimit = 0, ContainerMemLimit = 0, ContainerReady = False,
                ContainerCPUUsage = 0, ContainerMemUsage = 0\<rparr>;
          m = (case GetDeploymentInfo cluster of
                 Inl err \<Rightarrow> m
               | Inr None \<Rightarrow> m
               | Inr (Some deploymentInfo) \<Rightarrow>
                   m\<lparr>DeploymentReplicas := Replicas deploymentInfo,
                     DeploymentAvailableReplicas := AvailableReplicas deploymentInfo\<rparr>)
      in case GetContainerLimits (K8sClient h) of
           Inl err \<Rightarrow> Inl (CannotGetLimits err)
         | Inr containerLimits \<Rightarrow>
             (let m = m\<lparr>ContainerCPULimit := CPULimit containerLimits,
                        ContainerMemLimit := MemLimit containerLimits\<rparr>;
                  m = (case GetPodInfo cluster of
                         Inl err \<Rightarrow> m
                       | Inr None \<Rightarrow> m
                       | Inr (Some podInfo) \<Rightarrow>
                           (case Containers podInfo of
                              None \<Rightarrow> m
                            | Some containers \<Rightarrow>
                                (case containers (Config.ContainerName (Config h)) of
                                   None \<Rightarrow> m
                                 | Some None \<Rightarrow> m
                                 | Some (Some container) \<Rightarrow>
                                     m\<lparr>ContainerReady := Ready container\<rparr>)));
                  m = (case GetPodMetrics cluster of
                         Inl err \<Rightarrow> m
                       | Inr None \<Rightarrow> m
                       | Inr (Some podMetrics) \<Rightarrow>
                           (case Containers podMetrics of
                              None \<Rightarrow> m
                            | Some containers \<Rightarrow>
                                (case containers (Config.ContainerName (Config h)) of
                                   None \<Rightarrow> m
                                 | Some None \<Rightarrow> m
                                 | Some (Some container) \<Rightarrow>
                                     m\<lparr>ContainerCPUUsage := CPUUsage container,
                                       ContainerMemUsage := MemUsage container\<rparr>)))
              in Inr m))"

text \<open>The entries of \<open>details\<close> that \<open>ServeHTTP\<close> fills in, with the status it ends on.\<close>

definition health_details :: "HealthHandler \<Rightarrow> ResourceMetrics \<Rightarrow> string \<Rightarrow> details" where
  "health_details h resourceMetrics st =
     \<lparr>deployment_name = DeploymentName (Config h),
      replicas = DeploymentReplicas resourceMetrics,
      available_replicas = DeploymentAvailableReplicas resourceMetrics,
      availability_percent = calcPodsRatio resourceMetrics,
      container_name = ResourceMetrics.ContainerName resourceMetrics,
      ready = ContainerReady resourceMetrics,
      memory_usage_mb = ContainerMemUsage resourceMetrics,
      memory_limit_mb = ContainerMemLimit resourceMetrics,
      memory_percent = calcMemoryPercent resourceMetrics,
      cpu_usage_millicores = ContainerCPUUsage resourceMetrics,
      cpu_limit_millicores = ContainerCPULimit resourceMetrics,
      cpu_percent = calcCPUPercent resourceMetrics,
      status = st\<rparr>"

text \<open>
  \<open>HealthHandler.ServeHTTP\<close>: one health check. It takes the package variables as they
  are when the request arrives and returns the response with the variables as it leaves
  them. The status code is the one passed to \<open>WriteHeader\<close>; the JSON object holds
  strings, integers, booleans and finite numbers only, so encoding it does not fail.
\<close>

definition HealthHandler_ServeHTTP ::
  "HealthHandler \<Rightarrow> Cluster \<Rightarrow> globals \<Rightarrow> response \<times> globals" where
  "HealthHandler_ServeHTTP h cluster g =
     (case collectResourceMetrics h cluster of
        Inl err \<Rightarrow>
          (\<lparr>statusCode = StatusServiceUnavailable, body = FailureText err\<rparr>, g)
      | Inr resourceMetrics \<Rightarrow>
          if \<not> ContainerReady resourceMetrics then
            (\<lparr>statusCode = StatusOK,
              body = Details (health_details h resourceMetrics ''NOT_READY'')\<rparr>, g)
          else
            let podsRatio = calcPodsRatio resourceMetrics in
            if flt podsRatio (MinimumPodsToKeepPercent (Config h)) then
              (\<lparr>statusCode = StatusOK,
                body = Details (health_details h resourceMetrics ''POD_SHORTAGE'')\<rparr>, g)
            else
              let memUsagePercent = calcMemoryPercent resourceMetrics;
                  cpuUsagePercent = calcCPUPercent resourceMetrics;
                  g = g\<lparr>resourceOverLoaded :=
                          fgt memUsagePercent (ResourceThresholdMemoryPercent (Config h)) \<and>
                          fgt cpuUsagePercent (ResourceThresholdCPUPercent (Config h))\<rparr>
              in
              if resourceOverLoaded g then
                if shouldRandomize g then
                  let (x, rng') = Float64 (rng g);
                      randomValue = fmul x (Finite 100);
                      g = g\<lparr>rng := rng'\<rparr>
                  in
                  if fgt randomValue (MinimumPodsToKeepPercent (Config h)) then
                    (\<lparr>statusCode = StatusBadRequest,
                      body = Details (health_details h resourceMetrics ''RESOURCE_EXHAUSTED'')\<rparr>,
                     g\<lparr>shouldRandomize := False\<rparr>)
                  else
                    (\<lparr>statusCode = StatusOK,
                      body = Details (health_details h resourceMetrics
                                        ''RESOURCE_OVERLOADED_BUT_KEEPING'')\<rparr>, g)
                else
                  (\<lparr>statusCode = StatusBadRequest,
                    body = Details (health_details h resourceMetrics ''RESOURCE_EXHAUSTED'')\<rparr>, g)
              else
                (\<lparr>statusCode = StatusOK,
                  body = Details (health_details h resourceMetrics ''HEALTHY'')\<rparr>,
                 g\<lparr>shouldRandomize := True\<rparr>))"

section \<open>Package handlers: the metrics handler\<close>

text \<open>Of its four fields the metrics handler only uses the health handler.\<close>

record MetricsHandler =
  HealthHandler :: HealthHandler

text \<open>
  \<open>MetricsHandler.ServeHTTP\<close> collects a snapshot through the health handler and encodes
  it. It lives in the same package as the variables above, so it is given them and returns
  them, like the health check.
\<close>

definition MetricsHandler_ServeHTTP ::
  "MetricsHandler \<Rightarrow> Cluster \<Rightarrow> globals \<Rightarrow> response \<times> globals" where
  "MetricsHandler_ServeHTTP h cluster g =
     (case collectResourceMetrics (HealthHandler h) cluster of
        Inl err \<Rightarrow>
          (\<lparr>statusCode = StatusServiceUnavailable, body = FailureText err\<rparr>, g)
      | Inr metrics \<Rightarrow>
          (\<lparr>statusCode = StatusOK, body = Snapshot metrics\<rparr>, g))"

section \<open>The verdict of the specification\<close>

text \<open>
  The program has no \<open>accept\<close> field: it writes a status label and a status code. This
  definition follows the words of the specification, not the source. The specification
  gives every verdict a label and a boolean \<open>accept\<close>, which is false for
  RESOURCE_EXHAUSTED and true for HEALTHY, NOT_READY, POD_SHORTAGE and
  RESOURCE_OVERLOADED_BUT_KEEPING.
\<close>

definition spec_accept :: "string \<Rightarrow> bool" where
  "spec_accept label \<longleftrightarrow>
     label \<in> {''HEALTHY'', ''NOT_READY'', ''POD_SHORTAGE'', ''RESOURCE_OVERLOADED_BUT_KEEPING''}"

section \<open>Scenarios\<close>

text \<open>
  Concrete inputs on which the theorems below are instantiated: the default
  configuration (thresholds 80 and 80, minimum 50), limits of 1000 millicores and 1000 MB,
  and a cluster that reports the given replica counts, readiness and usage for the
  monitored container.
\<close>

definition scenario_config :: Config where
  "scenario_config =
     \<lparr>KubeconfigPath = [], InClusterConfig = True, Namespace = ''test-sp'',
      DeploymentName = ''aliexpress'', Config.ContainerName = ''aliexpress'',
      PodName = ''aliexpress-6c7687ddb-gh5mb'',
      ResourceThresholdMemoryPercent = Finite 80,
      ResourceThresholdCPUPercent = Finite 80,
      MinimumPodsToKeepPercent = Finite 50, HttpPort = ''8333''\<rparr>"

definition scenario_handler :: HealthHandler where
  "scenario_handler =
     \<lparr>K8sClient = \<lparr>ContainerLimits = Some \<lparr>CPULimit = 1000, MemLimit = 1000\<rparr>\<rparr>,
      Config = scenario_config\<rparr>"

definition scenario_cluster :: "int32 \<Rightarrow> int32 \<Rightarrow> bool \<Rightarrow> int64 \<Rightarrow> int64 \<Rightarrow> Cluster" where
  "scenario_cluster n avail rdy cpu mem =
     \<lparr>GetDeploymentInfo = Inr (Some \<lparr>Replicas = n, AvailableReplicas = avail\<rparr>),
      GetPodInfo =
        Inr (Some \<lparr>Containers =
          Some [''aliexpress'' \<mapsto> Some \<lparr>CPUUsage = 0, MemUsage = 0, Ready = rdy\<rparr>]\<rparr>),
      GetPodMetrics =
        Inr (Some \<lparr>Containers =
          Some [''aliexpress'' \<mapsto> Some \<lparr>CPUUsage = cpu, MemUsage = mem, Ready = False\<rparr>]\<rparr>)\<rparr>"

definition scenario_snapshot :: "int32 \<Rightarrow> int32 \<Rightarrow> bool \<Rightarrow> int64 \<Rightarrow> int64 \<Rightarrow> ResourceMetrics" where
  "scenario_snapshot n avail rdy cpu mem =
     \<lparr>DeploymentReplicas = n, DeploymentAvailableReplicas = avail,
      ContainerName = ''aliexpress'', ContainerCPULimit = 1000, ContainerMemLimit = 1000,
      ContainerReady = rdy, ContainerCPUUsage = cpu, ContainerMemUsage = mem\<rparr>"

section \<open>Facts about the ratio calculators\<close>

lemma calcPodsRatio_eq:
  "calcPodsRatio m =
     (if sint (DeploymentReplicas m) \<le> 0 then Finite 0
      else Finite (of_int (sint (DeploymentAvailableReplicas m))
                   / of_int (sint (DeploymentReplicas m)) * 100))"
  by (simp add: calcPodsRatio_def float64_of_int32_def del: of_int_sint)

lemma calcMemoryPercent_eq:
  "calcMemoryPercent m =
     (if sint (ContainerMemLimit m) \<le> 0 then Finite 0
      else Finite (of_int (sint (ContainerMemUsage m))
                   / of_int (sint (ContainerMemLimit m)) * 100))"
  by (simp add: calcMemoryPercent_def float64_of_int64_def del: of_int_sint)

lemma calcCPUPercent_eq:
  "calcCPUPercent m =
     (if sint (ContainerCPULimit m) \<le> 0 then Finite 0
      else Finite (of_int (sint (ContainerCPUUsage m))
                   / of_int (sint (ContainerCPULimit m)) * 100))"
  by (simp add: calcCPUPercent_def float64_of_int64_def del: of_int_sint)




section \<open>Facts about the comparisons\<close>




section \<open>Facts about the collection of the snapshot\<close>

lemma collect_failed_iff:
  "collectResourceMetrics h cluster = Inl e' \<longleftrightarrow>
     (\<exists>e. GetContainerLimits (K8sClient h) = Inl e \<and> e' = CannotGetLimits e)"
  by (cases "GetContainerLimits (K8sClient h)")
     (auto simp add: collectResourceMetrics_def Let_def)

lemma collect_succeeds:
  "GetContainerLimits (K8sClient h) = Inr limits \<Longrightarrow>
   \<exists>m. collectResourceMetrics h cluster = Inr m"
  by (simp add: collectResourceMetrics_def Let_def)

lemma collect_deployment_failed:
  assumes "GetDeploymentInfo cluster = Inl e"
    and "collectResourceMetrics h cluster = Inr m"
  shows "DeploymentReplicas m = 0 \<and> DeploymentAvailableReplicas m = 0"
proof (cases "GetContainerLimits (K8sClient h)")
  case (Inl a)
  with assms(2) show ?thesis
    by (simp add: collectResourceMetrics_def Let_def)
next
  case (Inr limits)
  with assms show ?thesis
    by (auto simp add: collectResourceMetrics_def Let_def split: sum.splits option.splits)
qed

lemma collect_ignores_thresholds:
  "collectResourceMetrics
     (h\<lparr>Config := (Config h)\<lparr>ResourceThresholdMemoryPercent := a,
        ResourceThresholdCPUPercent := b, MinimumPodsToKeepPercent := c\<rparr>\<rparr>) cluster =
   collectResourceMetrics h cluster"
  by (simp add: collectResourceMetrics_def cong: sum.case_cong option.case_cong)

lemma status_health_details: "status (health_details h m st) = st"
  by (simp add: health_details_def)

section \<open>The branches of the health check\<close>

text \<open>One lemma for each way through \<open>ServeHTTP\<close>, giving the response and the variables.\<close>

lemma serve_collect_failed:
  "collectResourceMetrics h cluster = Inl e \<Longrightarrow>
   HealthHandler_ServeHTTP h cluster g =
     (\<lparr>statusCode = StatusServiceUnavailable, body = FailureText e\<rparr>, g)"
  by (auto simp add: HealthHandler_ServeHTTP_def Let_def)

lemma serve_not_ready:
  "collectResourceMetrics h cluster = Inr m \<Longrightarrow> \<not> ContainerReady m \<Longrightarrow>
   HealthHandler_ServeHTTP h cluster g =
     (\<lparr>statusCode = StatusOK, body = Details (health_details h m ''NOT_READY'')\<rparr>, g)"
  by (auto simp add: HealthHandler_ServeHTTP_def Let_def)

lemma serve_shortage:
  "collectResourceMetrics h cluster = Inr m \<Longrightarrow> ContainerReady m \<Longrightarrow>
   flt (calcPodsRatio m) (MinimumPodsToKeepPercent (Config h)) \<Longrightarrow>
   HealthHandler_ServeHTTP h cluster g =
     (\<lparr>statusCode = StatusOK, body = Details (health_details h m ''POD_SHORTAGE'')\<rparr>, g)"
  by (auto simp add: HealthHandler_ServeHTTP_def Let_def)


lemma serve_locked:
  "collectResourceMetrics h cluster = Inr m \<Longrightarrow> ContainerReady m \<Longrightarrow>
   \<not> flt (calcPodsRatio m) (MinimumPodsToKeepPercent (Config h)) \<Longrightarrow>
   fgt (calcMemoryPercent m) (ResourceThresholdMemoryPercent (Config h)) \<Longrightarrow>
   fgt (calcCPUPercent m) (ResourceThresholdCPUPercent (Config h)) \<Longrightarrow>
   \<not> shouldRandomize g \<Longrightarrow>
   HealthHandler_ServeHTTP h cluster g =
     (\<lparr>statusCode = StatusBadRequest,
       body = Details (health_details h m ''RESOURCE_EXHAUSTED'')\<rparr>,
      g\<lparr>resourceOverLoaded := True\<rparr>)"
  by (auto simp add: HealthHandler_ServeHTTP_def Let_def)



lemma serve_collected:
  assumes "collectResourceMetrics h cluster = Inr m"
  shows "fst (HealthHandler_ServeHTTP h cluster g) \<in>
           {\<lparr>statusCode = StatusOK, body = Details (health_details h m ''HEALTHY'')\<rparr>,
            \<lparr>statusCode = StatusOK, body = Details (health_details h m ''NOT_READY'')\<rparr>,
            \<lparr>statusCode = StatusOK, body = Details (health_details h m ''POD_SHORTAGE'')\<rparr>,
            \<lparr>statusCode = StatusBadRequest,
              body = Details (health_details h m ''RESOURCE_EXHAUSTED'')\<rparr>,
            \<lparr>statusCode = StatusOK,
              body = Details (health_details h m ''RESOURCE_OVERLOADED_BUT_KEEPING'')\<rparr>}"
  by (simp add: HealthHandler_ServeHTTP_def Let_def Float64_def assms)


section \<open>The scenarios, evaluated\<close>

lemma scenario_collect:
  "collectResourceMetrics scenario_handler (scenario_cluster t a r c m) = Inr (scenario_snapshot t a r c m)"
  by (simp add: collectResourceMetrics_def scenario_handler_def scenario_cluster_def
      scenario_snapshot_def scenario_config_def GetContainerLimits_def)

lemma scenario_ratios:
  "calcPodsRatio (scenario_snapshot 10 10 r c m) = Finite 100"
  "calcPodsRatio (scenario_snapshot 10 2 r c m) = Finite 20"
  "calcCPUPercent (scenario_snapshot t a r 900 m) = Finite 90"
  "calcCPUPercent (scenario_snapshot t a r 500 m) = Finite 50"
  "calcMemoryPercent (scenario_snapshot t a r c 900) = Finite 90"
  "calcMemoryPercent (scenario_snapshot t a r c 500) = Finite 50"
  by (simp_all add: calcPodsRatio_eq calcCPUPercent_eq calcMemoryPercent_eq scenario_snapshot_def)

lemma scenario_thresholds:
  "MinimumPodsToKeepPercent (Config scenario_handler) = Finite 50"
  "ResourceThresholdCPUPercent (Config scenario_handler) = Finite 80"
  "ResourceThresholdMemoryPercent (Config scenario_handler) = Finite 80"
  by (simp_all add: scenario_handler_def scenario_config_def)

lemma scenario_ready: "ContainerReady (scenario_snapshot t a r c m) = r"
  by (simp add: scenario_snapshot_def)

lemma scenario_limits:
  "GetContainerLimits (K8sClient scenario_handler) = Inr \<lparr>CPULimit = 1000, MemLimit = 1000\<rparr>"
  "GetContainerLimits (K8sClient (scenario_handler\<lparr>K8sClient := \<lparr>ContainerLimits = None\<rparr>\<rparr>)) =
     Inl LimitsNotInitialised"
  by (simp_all add: GetContainerLimits_def scenario_handler_def)

lemma scenario_collect_no_deployment:
  "collectResourceMetrics scenario_handler
     ((scenario_cluster n a r c m)\<lparr>GetDeploymentInfo := Inl ApiError\<rparr>) =
   Inr (scenario_snapshot 0 0 r c m)"
  by (simp add: collectResourceMetrics_def scenario_handler_def scenario_cluster_def
      scenario_snapshot_def scenario_config_def GetContainerLimits_def)

section \<open>The ratio calculators are total\<close>



section \<open>The container is not ready\<close>

text \<open>
  Claim C6. Whenever the snapshot says that the container is not ready, the health check
  answers NOT_READY with the success code 200 (the verdict is an accepting one) and
  leaves every package variable, the sticky flag among them, exactly as it found it.
  Nothing is assumed about the state before the call or about the other fields of the
  snapshot.
\<close>

theorem not_ready_verdict:
  assumes "collectResourceMetrics h cluster = Inr m"
    and "\<not> ContainerReady m"
  shows "HealthHandler_ServeHTTP h cluster g =
           (\<lparr>statusCode = 200, body = Details (health_details h m ''NOT_READY'')\<rparr>, g)"
  using serve_not_ready [OF assms] by (simp add: StatusOK_def)

theorem not_ready_verdict_witness:
  "collectResourceMetrics scenario_handler (scenario_cluster 10 10 False 900 900) =
     Inr (scenario_snapshot 10 10 False 900 900) \<and>
   \<not> ContainerReady (scenario_snapshot 10 10 False 900 900) \<and>
   HealthHandler_ServeHTTP scenario_handler (scenario_cluster 10 10 False 900 900)
       \<lparr>resourceOverLoaded = True, shouldRandomize = False, rng = sconst 0\<rparr> =
     (\<lparr>statusCode = 200,
       body = Details (health_details scenario_handler
                         (scenario_snapshot 10 10 False 900 900) ''NOT_READY'')\<rparr>,
      \<lparr>resourceOverLoaded = True, shouldRandomize = False, rng = sconst 0\<rparr>)"
proof -
  have c: "collectResourceMetrics scenario_handler (scenario_cluster 10 10 False 900 900) =
     Inr (scenario_snapshot 10 10 False 900 900)"
    by (rule scenario_collect)
  have r: "\<not> ContainerReady (scenario_snapshot 10 10 False 900 900)"
    by (simp add: scenario_ready)
  show ?thesis
    using c r not_ready_verdict [OF c r] by simp
qed

section \<open>The replica shortage guard\<close>



section \<open>The overload test\<close>



section \<open>The draw in the unlocked state\<close>



section \<open>The sticky flag as a state machine\<close>



section \<open>The status code of the health response\<close>

text \<open>
  Claim C8. For every health check: if the container limits cannot be obtained, the
  response has the service-unavailable code 503, carries no verdict, and leaves every
  package variable unchanged, so no admission decision has run. Otherwise the response
  carries one of the five status labels, and its code is the success code 200 when the
  specification's \<open>accept\<close> is true for that label and the client-error code 400, which
  differs from 503, when it is false.
\<close>

theorem health_wire_status:
  "(\<forall>e. GetContainerLimits (K8sClient h) = Inl e \<longrightarrow>
        HealthHandler_ServeHTTP h cluster g =
          (\<lparr>statusCode = 503, body = FailureText (CannotGetLimits e)\<rparr>, g)) \<and>
   (\<forall>limits. GetContainerLimits (K8sClient h) = Inr limits \<longrightarrow>
        (\<exists>d. body (fst (HealthHandler_ServeHTTP h cluster g)) = Details d \<and>
             status d \<in> {''HEALTHY'', ''NOT_READY'', ''POD_SHORTAGE'', ''RESOURCE_EXHAUSTED'',
                          ''RESOURCE_OVERLOADED_BUT_KEEPING''} \<and>
             (spec_accept (status d) \<longrightarrow>
                statusCode (fst (HealthHandler_ServeHTTP h cluster g)) = 200) \<and>
             (\<not> spec_accept (status d) \<longrightarrow>
                statusCode (fst (HealthHandler_ServeHTTP h cluster g)) = 400)))"
proof (intro conjI allI impI)
  fix e
  assume "GetContainerLimits (K8sClient h) = Inl e"
  then have "collectResourceMetrics h cluster = Inl (CannotGetLimits e)"
    by (simp add: collect_failed_iff)
  from serve_collect_failed [OF this]
  show "HealthHandler_ServeHTTP h cluster g =
          (\<lparr>statusCode = 503, body = FailureText (CannotGetLimits e)\<rparr>, g)"
    by (simp add: StatusServiceUnavailable_def)
next
  fix limits
  assume "GetContainerLimits (K8sClient h) = Inr limits"
  from collect_succeeds [OF this]
  obtain m where "collectResourceMetrics h cluster = Inr m"
    by blast
  from serve_collected [OF this, of g]
  show "\<exists>d. body (fst (HealthHandler_ServeHTTP h cluster g)) = Details d \<and>
             status d \<in> {''HEALTHY'', ''NOT_READY'', ''POD_SHORTAGE'', ''RESOURCE_EXHAUSTED'',
                          ''RESOURCE_OVERLOADED_BUT_KEEPING''} \<and>
             (spec_accept (status d) \<longrightarrow>
                statusCode (fst (HealthHandler_ServeHTTP h cluster g)) = 200) \<and>
             (\<not> spec_accept (status d) \<longrightarrow>
                statusCode (fst (HealthHandler_ServeHTTP h cluster g)) = 400)"
    by (auto simp add: status_health_details spec_accept_def StatusOK_def StatusBadRequest_def)
qed

theorem health_wire_status_witness:
  "GetContainerLimits (K8sClient (scenario_handler\<lparr>K8sClient := \<lparr>ContainerLimits = None\<rparr>\<rparr>)) =
     Inl LimitsNotInitialised \<and>
   HealthHandler_ServeHTTP (scenario_handler\<lparr>K8sClient := \<lparr>ContainerLimits = None\<rparr>\<rparr>)
       (scenario_cluster 10 10 True 900 900)
       \<lparr>resourceOverLoaded = False, shouldRandomize = True, rng = sconst (9 / 10)\<rparr> =
     (\<lparr>statusCode = 503, body = FailureText (CannotGetLimits LimitsNotInitialised)\<rparr>,
      \<lparr>resourceOverLoaded = False, shouldRandomize = True, rng = sconst (9 / 10)\<rparr>) \<and>
   GetContainerLimits (K8sClient scenario_handler) = Inr \<lparr>CPULimit = 1000, MemLimit = 1000\<rparr> \<and>
   (\<exists>d. body (fst (HealthHandler_ServeHTTP scenario_handler (scenario_cluster 10 10 True 900 900)
                     \<lparr>resourceOverLoaded = True, shouldRandomize = False, rng = sconst 0\<rparr>)) =
          Details d \<and>
        \<not> spec_accept (status d) \<and>
        statusCode (fst (HealthHandler_ServeHTTP scenario_handler
                           (scenario_cluster 10 10 True 900 900)
                           \<lparr>resourceOverLoaded = True, shouldRandomize = False, rng = sconst 0\<rparr>)) =
          400)"
proof -
  let ?h = "scenario_handler\<lparr>K8sClient := \<lparr>ContainerLimits = None\<rparr>\<rparr>"
  let ?g = "\<lparr>resourceOverLoaded = True, shouldRandomize = False, rng = sconst 0\<rparr>"
  let ?run = "HealthHandler_ServeHTTP scenario_handler (scenario_cluster 10 10 True 900 900) ?g"
  have none: "GetContainerLimits (K8sClient ?h) = Inl LimitsNotInitialised"
    by (rule scenario_limits)
  have some: "GetContainerLimits (K8sClient scenario_handler) =
                Inr \<lparr>CPULimit = 1000, MemLimit = 1000\<rparr>"
    by (rule scenario_limits)
  have "?run = (\<lparr>statusCode = StatusBadRequest,
                  body = Details (health_details scenario_handler
                           (scenario_snapshot 10 10 True 900 900) ''RESOURCE_EXHAUSTED'')\<rparr>,
                ?g\<lparr>resourceOverLoaded := True\<rparr>)"
    by (rule serve_locked [OF scenario_collect])
       (simp_all add: scenario_ready scenario_ratios scenario_thresholds fgt_def)
  then have b: "body (fst ?run) = Details (health_details scenario_handler
                           (scenario_snapshot 10 10 True 900 900) ''RESOURCE_EXHAUSTED'')"
    by simp
  have rejected: "\<not> spec_accept (status (health_details scenario_handler
                           (scenario_snapshot 10 10 True 900 900) ''RESOURCE_EXHAUSTED''))"
    by (simp add: status_health_details spec_accept_def)
  from health_wire_status [of scenario_handler "scenario_cluster 10 10 True 900 900" ?g] some
  obtain d where d: "body (fst ?run) = Details d"
      "\<not> spec_accept (status d) \<longrightarrow> statusCode (fst ?run) = 400"
    by blast
  from d(1) b have "d = health_details scenario_handler
                           (scenario_snapshot 10 10 True 900 900) ''RESOURCE_EXHAUSTED''"
    by simp
  with d rejected have second: "\<exists>d. body (fst ?run) = Details d \<and> \<not> spec_accept (status d) \<and>
      statusCode (fst ?run) = 400"
    by blast
  from health_wire_status [of ?h "scenario_cluster 10 10 True 900 900"
      "\<lparr>resourceOverLoaded = False, shouldRandomize = True, rng = sconst (9 / 10)\<rparr>"] none
  have first: "HealthHandler_ServeHTTP ?h (scenario_cluster 10 10 True 900 900)
       \<lparr>resourceOverLoaded = False, shouldRandomize = True, rng = sconst (9 / 10)\<rparr> =
     (\<lparr>statusCode = 503, body = FailureText (CannotGetLimits LimitsNotInitialised)\<rparr>,
      \<lparr>resourceOverLoaded = False, shouldRandomize = True, rng = sconst (9 / 10)\<rparr>)"
    by blast
  show ?thesis
    using none some first second by blast
qed

section \<open>The metrics endpoint\<close>

text \<open>
  Claim C9. A request to the metrics endpoint leaves every package variable, the sticky
  flag and the generator among them, as it was. Whenever a snapshot is collected the
  response is that snapshot, field for field, with code 200; the response never carries a
  verdict, and it depends neither on the package variables nor on the three thresholds,
  so no admission decision is evaluated. (When the container limits cannot be obtained
  there is no snapshot, and the response is the failure with code 503.)
\<close>

theorem metrics_endpoint_frame:
  "snd (MetricsHandler_ServeHTTP mh cluster g) = g \<and>
   (\<forall>m. collectResourceMetrics (HealthHandler mh) cluster = Inr m \<longrightarrow>
        fst (MetricsHandler_ServeHTTP mh cluster g) = \<lparr>statusCode = 200, body = Snapshot m\<rparr>) \<and>
   (\<forall>d. body (fst (MetricsHandler_ServeHTTP mh cluster g)) \<noteq> Details d) \<and>
   fst (MetricsHandler_ServeHTTP mh cluster g) = fst (MetricsHandler_ServeHTTP mh cluster g2) \<and>
   MetricsHandler_ServeHTTP
     (mh\<lparr>HealthHandler := (HealthHandler mh)\<lparr>Config := (Config (HealthHandler mh))
        \<lparr>ResourceThresholdMemoryPercent := a, ResourceThresholdCPUPercent := b,
         MinimumPodsToKeepPercent := c\<rparr>\<rparr>\<rparr>) cluster g =
     MetricsHandler_ServeHTTP mh cluster g"
  by (cases "collectResourceMetrics (HealthHandler mh) cluster")
     (simp_all add: MetricsHandler_ServeHTTP_def StatusOK_def collect_ignores_thresholds)

theorem metrics_endpoint_frame_witness:
  "collectResourceMetrics (HealthHandler \<lparr>HealthHandler = scenario_handler\<rparr>)
       (scenario_cluster 10 10 True 900 900) =
     Inr (scenario_snapshot 10 10 True 900 900) \<and>
   fst (MetricsHandler_ServeHTTP \<lparr>HealthHandler = scenario_handler\<rparr>
          (scenario_cluster 10 10 True 900 900)
          \<lparr>resourceOverLoaded = False, shouldRandomize = True, rng = sconst (9 / 10)\<rparr>) =
     \<lparr>statusCode = 200, body = Snapshot (scenario_snapshot 10 10 True 900 900)\<rparr> \<and>
   snd (MetricsHandler_ServeHTTP \<lparr>HealthHandler = scenario_handler\<rparr>
          (scenario_cluster 10 10 True 900 900)
          \<lparr>resourceOverLoaded = False, shouldRandomize = True, rng = sconst (9 / 10)\<rparr>) =
     \<lparr>resourceOverLoaded = False, shouldRandomize = True, rng = sconst (9 / 10)\<rparr>"
proof -
  have c: "collectResourceMetrics (HealthHandler \<lparr>HealthHandler = scenario_handler\<rparr>)
       (scenario_cluster 10 10 True 900 900) =
     Inr (scenario_snapshot 10 10 True 900 900)"
    by (simp add: scenario_collect)
  show ?thesis
    using c metrics_endpoint_frame [of "\<lparr>HealthHandler = scenario_handler\<rparr>"
        "scenario_cluster 10 10 True 900 900"
        "\<lparr>resourceOverLoaded = False, shouldRandomize = True, rng = sconst (9 / 10)\<rparr>"]
    by blast
qed

section \<open>Failing to get the deployment\<close>

text \<open>
  Claim C10. When getting the deployment fails, the replica fields of the snapshot stay
  zero and the available-replica percentage is 0. So if the configured minimum is
  greater than 0 and the snapshot has the container ready, the health check answers
  POD_SHORTAGE with the success code 200 and leaves every package variable unchanged:
  the overload test is not reached and the request is not rejected.
\<close>

theorem deployment_failure_fails_open:
  assumes "GetDeploymentInfo cluster = Inl e"
    and "collectResourceMetrics h cluster = Inr m"
    and "ContainerReady m"
    and "fgt (MinimumPodsToKeepPercent (Config h)) (Finite 0)"
  shows "DeploymentReplicas m = 0 \<and> DeploymentAvailableReplicas m = 0 \<and>
         calcPodsRatio m = Finite 0 \<and>
         HealthHandler_ServeHTTP h cluster g =
           (\<lparr>statusCode = 200, body = Details (health_details h m ''POD_SHORTAGE'')\<rparr>, g)"
proof -
  have zero: "DeploymentReplicas m = 0 \<and> DeploymentAvailableReplicas m = 0"
    using assms(1,2) by (rule collect_deployment_failed)
  then have ratio: "calcPodsRatio m = Finite 0"
    by (simp add: calcPodsRatio_eq)
  have "flt (calcPodsRatio m) (MinimumPodsToKeepPercent (Config h))"
    using assms(4) by (simp add: ratio fgt_def)
  from serve_shortage [OF assms(2,3) this, of g] zero ratio
  show ?thesis
    by (simp add: StatusOK_def)
qed

theorem deployment_failure_fails_open_witness:
  "GetDeploymentInfo ((scenario_cluster 10 10 True 900 900)\<lparr>GetDeploymentInfo := Inl ApiError\<rparr>) =
     Inl ApiError \<and>
   collectResourceMetrics scenario_handler
       ((scenario_cluster 10 10 True 900 900)\<lparr>GetDeploymentInfo := Inl ApiError\<rparr>) =
     Inr (scenario_snapshot 0 0 True 900 900) \<and>
   ContainerReady (scenario_snapshot 0 0 True 900 900) \<and>
   fgt (MinimumPodsToKeepPercent (Config scenario_handler)) (Finite 0) \<and>
   HealthHandler_ServeHTTP scenario_handler
       ((scenario_cluster 10 10 True 900 900)\<lparr>GetDeploymentInfo := Inl ApiError\<rparr>)
       \<lparr>resourceOverLoaded = False, shouldRandomize = True, rng = sconst (9 / 10)\<rparr> =
     (\<lparr>statusCode = 200,
       body = Details (health_details scenario_handler
                         (scenario_snapshot 0 0 True 900 900) ''POD_SHORTAGE'')\<rparr>,
      \<lparr>resourceOverLoaded = False, shouldRandomize = True, rng = sconst (9 / 10)\<rparr>)"
proof -
  have d: "GetDeploymentInfo
             ((scenario_cluster 10 10 True 900 900)\<lparr>GetDeploymentInfo := Inl ApiError\<rparr>) =
           Inl ApiError"
    by simp
  have c: "collectResourceMetrics scenario_handler
       ((scenario_cluster 10 10 True 900 900)\<lparr>GetDeploymentInfo := Inl ApiError\<rparr>) =
     Inr (scenario_snapshot 0 0 True 900 900)"
    by (rule scenario_collect_no_deployment)
  have r: "ContainerReady (scenario_snapshot 0 0 True 900 900)"
    by (simp add: scenario_ready)
  have p: "fgt (MinimumPodsToKeepPercent (Config scenario_handler)) (Finite 0)"
    by (simp add: scenario_thresholds fgt_def)
  show ?thesis
    using d c r p deployment_failure_fails_open [OF d c r p] by simp
qed

end
